theory Spec2Isabelle
  imports Main
begin

section \<open>JavaScript values and objects\<close>

text \<open>
  The file \<^verbatim>\<open>packages/common/src/TruffleConfig.js\<close> is a CommonJS module for Node.js.
  Its values are modelled by one datatype. A number is an integer here (every number of
  the module is one, apart from \<^verbatim>\<open>NaN\<close>, which has its own constructor). An object is the
  list of its own properties in insertion order. The six function expressions of the
  module are the provider factories; each is a tag together with the \<^verbatim>\<open>networkId\<close> its
  closure captured (\<^verbatim>\<open>undefined\<close> for the metamask factory, which captures none).

  A \<open>char\<close> stands for one UTF-16 code unit below 256.
\<close>

datatype provider_fn =
  gckms_provider | privatekey_provider | mnemonic_provider
  | ledger_provider | ledger_legacy_provider | metamask_provider

datatype jsval =
  VUndefined
  | VNaN
  | VNum int
  | VStr string
  | VBool bool
  | VArr "jsval list"
  | VObj "(string \<times> jsval) list"
  | VFun provider_fn jsval

type_synonym obj = "(string \<times> jsval) list"

text \<open>\<^verbatim>\<open>o[k]\<close>: the own property \<open>k\<close> of \<open>o\<close>, \<open>None\<close> when there is none.\<close>

definition get_prop :: "obj \<Rightarrow> string \<Rightarrow> jsval option" where
  "get_prop ob k = map_of ob k"

text \<open>\<^verbatim>\<open>o[k] = v\<close>: an existing property keeps its place, a new one goes last.\<close>

fun set_prop :: "obj \<Rightarrow> string \<Rightarrow> jsval \<Rightarrow> obj" where
  "set_prop [] k v = [(k, v)]"
| "set_prop ((k', v') # ps) k v =
     (if k' = k then (k, v) # ps else (k', v') # set_prop ps k v)"

text \<open>\<^verbatim>\<open>{...target, ...source}\<close>: the own properties of the source, copied in order.\<close>

fun spread :: "obj \<Rightarrow> obj \<Rightarrow> obj" where
  "spread target [] = target"
| "spread target ((k, v) # ps) = spread (set_prop target k v) ps"

text \<open>\<^verbatim>\<open>o[k].f = v\<close> for a property \<open>k\<close> that holds an object.\<close>

definition set_member :: "obj \<Rightarrow> string \<Rightarrow> string \<Rightarrow> jsval \<Rightarrow> obj" where
  "set_member ob k f v =
     (case get_prop ob k of
        Some (VObj entry) \<Rightarrow> set_prop ob k (VObj (set_prop entry f v))
      | _ \<Rightarrow> ob)"

text \<open>\<^verbatim>\<open>o[k].f\<close>, read.\<close>

definition get_member :: "obj \<Rightarrow> string \<Rightarrow> string \<Rightarrow> jsval option" where
  "get_member ob k f =
     (case get_prop ob k of Some (VObj entry) \<Rightarrow> get_prop entry f | _ \<Rightarrow> None)"

section \<open>The host: environment, global scope, collaborators\<close>

text \<open>
  \<open>env\<close> is \<^verbatim>\<open>process.env\<close> after \<^verbatim>\<open>require("dotenv").config()\<close> has run. \<open>global_name\<close>
  is the binding of the identifier \<^verbatim>\<open>name\<close> in the global scope, already rendered as a
  template literal would render it; Node.js has none. \<open>PublicNetworks\<close> and
  \<open>GckmsConfig\<close> are the tables of \<^verbatim>\<open>./PublicNetworks.js\<close> and \<^verbatim>\<open>./gckms/GckmsConfig.js\<close>,
  taken as parameters: the first as the list \<^verbatim>\<open>Object.entries\<close> yields, reduced to
  the pairs of id and \<^verbatim>\<open>name\<close> that the loop destructures.
\<close>

type_synonym environment = "string \<rightharpoonup> string"

record host =
  env :: environment
  global_name :: "string option"
  PublicNetworks :: "(string \<times> string) list"
  GckmsConfig :: "jsval list"

datatype error =
  ReferenceError string
  | TypeError string
  | ConstructorThrew string "jsval list"

section \<open>Credential resolution (lines 17 to 31)\<close>

text \<open>
  \<^verbatim>\<open>process.env.X ? process.env.X : fallback\<close>: an absent variable reads as
  \<^verbatim>\<open>undefined\<close> and the empty string is falsy, so both take the fallback.
\<close>

definition mnemonic :: "environment \<Rightarrow> string" where
  "mnemonic e =
     (case e ''MNEMONIC'' of
        Some s \<Rightarrow> if s \<noteq> [] then s
                  else ''candy maple cake sugar pudding cream honey rich smooth crumble sweet treat''
      | None \<Rightarrow> ''candy maple cake sugar pudding cream honey rich smooth crumble sweet treat'')"

definition privateKey :: "environment \<Rightarrow> string" where
  "privateKey e =
     (case e ''PRIVATE_KEY'' of
        Some s \<Rightarrow> if s \<noteq> [] then s
                  else ''0x348ce564d427a3311b6536bbcff9390d69395b06ed6c486954e971d960fe8709''
      | None \<Rightarrow> ''0x348ce564d427a3311b6536bbcff9390d69395b06ed6c486954e971d960fe8709'')"

definition infuraApiKey :: "environment \<Rightarrow> string" where
  "infuraApiKey e =
     (case e ''INFURA_API_KEY'' of
        Some s \<Rightarrow> if s \<noteq> [] then s else ''e34138b2db5b496ab5cc52319d2f0299''
      | None \<Rightarrow> ''e34138b2db5b496ab5cc52319d2f0299'')"

definition customNodeUrl :: "environment \<Rightarrow> string option" where
  "customNodeUrl e = e ''CUSTOM_NODE_URL''"

subsection \<open>\<^verbatim>\<open>parseInt\<close> with one argument\<close>

text \<open>
  The built-in \<^verbatim>\<open>parseInt(string)\<close> of ECMAScript, radix absent: leading white space
  is dropped, one sign is read, a prefix \<^verbatim>\<open>0x\<close> or \<^verbatim>\<open>0X\<close> selects radix 16 and is dropped,
  otherwise the radix is 10; the longest prefix of digits of that radix is the numeral,
  whatever follows it is ignored, and an empty numeral gives \<^verbatim>\<open>NaN\<close>. The result
  here is the mathematical integer of the numeral with its sign; the engine returns the
  nearest double, which is that integer whenever its magnitude is at most \<open>2 ^ 53\<close>.
\<close>

definition isStrWhiteSpaceChar :: "char \<Rightarrow> bool" where
  "isStrWhiteSpaceChar c = ((of_char c :: nat) \<in> set [9, 10, 11, 12, 13, 32, 160])"

definition digitValue :: "char \<Rightarrow> nat option" where
  "digitValue c =
     (let n = (of_char c :: nat) in
      if 48 \<le> n \<and> n \<le> 57 then Some (n - 48)
      else if 97 \<le> n \<and> n \<le> 102 then Some (n - 87)
      else if 65 \<le> n \<and> n \<le> 70 then Some (n - 55)
      else None)"

definition isRadixDigit :: "nat \<Rightarrow> char \<Rightarrow> bool" where
  "isRadixDigit R c = (case digitValue c of Some d \<Rightarrow> d < R | None \<Rightarrow> False)"

fun mathInt :: "nat \<Rightarrow> int \<Rightarrow> string \<Rightarrow> int" where
  "mathInt R acc [] = acc"
| "mathInt R acc (c # cs) =
     mathInt R (acc * int R + int (case digitValue c of Some d \<Rightarrow> d | None \<Rightarrow> 0)) cs"

definition parseInt :: "string \<Rightarrow> jsval" where
  "parseInt inputString =
     (let S = dropWhile isStrWhiteSpaceChar inputString;
          sign = (if take 1 S = ''-'' then - 1 else 1 :: int);
          S1 = (if take 1 S = ''+'' \<or> take 1 S = ''-'' then drop 1 S else S);
          stripPrefix = (take 2 S1 = ''0x'' \<or> take 2 S1 = ''0X'');
          R = (if stripPrefix then 16 else 10);
          S2 = (if stripPrefix then drop 2 S1 else S1);
          Z = takeWhile (isRadixDigit R) S2
      in if Z = [] then VNaN else VNum (sign * mathInt R 0 Z))"

definition keyOffset :: "environment \<Rightarrow> jsval" where
  "keyOffset e =
     (case e ''KEY_OFFSET'' of
        Some s \<Rightarrow> if s \<noteq> [] then parseInt s else VNum 0
      | None \<Rightarrow> VNum 0)"

definition numKeys :: "environment \<Rightarrow> jsval" where
  "numKeys e =
     (case e ''NUM_KEYS'' of
        Some s \<Rightarrow> if s \<noteq> [] then parseInt s else VNum 2
      | None \<Rightarrow> VNum 2)"

text \<open>The two default options of lines 35 and 36.\<close>

definition gasPx :: int where
  "gasPx = 20000000000"

definition gas :: jsval where
  "gas = VUndefined"

text \<open>
  Line 39: \<^verbatim>\<open>customNodeUrl || `wss://${name}.infura.io/ws/v3/${infuraApiKey}`\<close>, at module
  scope. The template literal is evaluated only when \<^verbatim>\<open>customNodeUrl\<close> is falsy
  (absent or empty). No binding of \<^verbatim>\<open>name\<close> is in scope there (the parameter of
  \<^verbatim>\<open>addPublicNetwork\<close> and the loop variable of line 150 are local to those), so the
  identifier resolves in the global scope and its evaluation throws a
  \<^verbatim>\<open>ReferenceError\<close> when the global scope has none.
\<close>

definition nodeUrl :: "host \<Rightarrow> error + string" where
  "nodeUrl h =
     (case customNodeUrl (env h) of
        Some s \<Rightarrow>
          if s \<noteq> [] then Inr s
          else (case global_name h of
                  None \<Rightarrow> Inl (ReferenceError ''name'')
                | Some n \<Rightarrow> Inr (''wss://'' @ n @ ''.infura.io/ws/v3/'' @ infuraApiKey (env h)))
      | None \<Rightarrow>
          (case global_name h of
             None \<Rightarrow> Inl (ReferenceError ''name'')
           | Some n \<Rightarrow> Inr (''wss://'' @ n @ ''.infura.io/ws/v3/'' @ infuraApiKey (env h))))"

section \<open>Registering networks\<close>

text \<open>
  \<^verbatim>\<open>addPublicNetwork(networks, name, networkId)\<close>, lines 44 to 119. The registry is
  mutated in place by the source; here it is passed in and returned. Every entry is a
  fresh object literal \<^verbatim>\<open>{...options, provider: function ...}\<close>.
\<close>

definition addPublicNetwork :: "obj \<Rightarrow> string \<Rightarrow> jsval \<Rightarrow> obj" where
  "addPublicNetwork networks name networkId =
     (let options =
            [(''networkCheckTimeout'', VNum 10000),
             (''network_id'', networkId),
             (''gas'', gas),
             (''gasPrice'', VNum gasPx)];
          networks1 = set_prop networks (name @ ''_gckms'')
            (VObj (set_prop (spread [] options) ''provider'' (VFun gckms_provider networkId)));
          networks2 = set_prop networks1 (name @ ''_privatekey'')
            (VObj (set_prop (spread [] options) ''provider'' (VFun privatekey_provider networkId)));
          networks3 = set_prop networks2 (name @ ''_mnemonic'')
            (VObj (set_prop (spread [] options) ''provider'' (VFun mnemonic_provider networkId)));
          networks4 = set_prop networks3 (name @ ''_ledger'')
            (VObj (set_prop (spread [] options) ''provider'' (VFun ledger_provider networkId)));
          networks5 = set_prop networks4 (name @ ''_ledger_legacy'')
            (VObj (set_prop (spread [] options) ''provider'' (VFun ledger_legacy_provider networkId)))
      in networks5)"

text \<open>
  \<^verbatim>\<open>addLocalNetwork(networks, name, customOptions)\<close>, lines 124 to 145. An omitted
  \<^verbatim>\<open>customOptions\<close> is \<^verbatim>\<open>undefined\<close>, whose spread adds nothing. \<^verbatim>\<open>"LOCALHOST" in
  process.env\<close> tests presence, and the value assigned is the variable's string.
\<close>

definition addLocalNetwork :: "environment \<Rightarrow> obj \<Rightarrow> string \<Rightarrow> obj option \<Rightarrow> obj" where
  "addLocalNetwork e networks name customOptions =
     (let defaultOptions =
            [(''host'', VStr ''127.0.0.1''),
             (''network_id'', VStr ''*''),
             (''port'', VNum 9545),
             (''gas'', gas)];
          networks1 = set_prop networks name
            (VObj (spread (spread [] defaultOptions)
                     (case customOptions of None \<Rightarrow> [] | Some c \<Rightarrow> c)));
          networks2 = (case e ''LOCALHOST'' of
                         Some v \<Rightarrow> set_member networks1 name ''host'' (VStr v)
                       | None \<Rightarrow> networks1);
          networks3 = (case e ''LOCALPORT'' of
                         Some v \<Rightarrow> set_member networks2 name ''port'' (VStr v)
                       | None \<Rightarrow> networks2)
      in networks3)"

text \<open>The loop of lines 150 to 152 over \<^verbatim>\<open>Object.entries(PublicNetworks)\<close>.\<close>

fun addPublicNetworks :: "obj \<Rightarrow> (string \<times> string) list \<Rightarrow> obj" where
  "addPublicNetworks networks [] = networks"
| "addPublicNetworks networks ((id', name) # rest) =
     addPublicNetworks (addPublicNetwork networks name (VStr id')) rest"

text \<open>
  The module body, lines 17 to 175: the value of \<^verbatim>\<open>nodeUrl\<close> and the registry
  \<^verbatim>\<open>networks\<close> once the body has run, or the error that stopped it.
\<close>

record module =
  exported_nodeUrl :: string
  module_networks :: obj

definition load :: "host \<Rightarrow> error + module" where
  "load h =
     (case nodeUrl h of
        Inl err \<Rightarrow> Inl err
      | Inr url \<Rightarrow>
          (let networks0 = addPublicNetworks [] (PublicNetworks h);
               networks1 = addLocalNetwork (env h) networks0 ''ci''
                 (Some [(''port'', VNum 8545), (''network_id'', VNum 1234)]);
               networks2 = addLocalNetwork (env h) networks1 ''develop'' None;
               networks3 = addLocalNetwork (env h) networks2 ''test'' None;
               networks4 = addLocalNetwork (env h) networks3 ''coverage''
                 (Some [(''port'', VNum 8545), (''network_id'', VNum 1234)]);
               networks5 = addLocalNetwork (env h) networks4 ''metamask''
                 (Some [(''networkCheckTimeout'', VNum 500000),
                        (''provider'', VFun metamask_provider VUndefined)]);
               networks6 = addLocalNetwork (env h) networks5 ''mainnet-fork''
                 (Some [(''port'', VNum 1235), (''network_id'', VNum 1)])
           in Inr \<lparr>exported_nodeUrl = url, module_networks = networks6\<rparr>))"

section \<open>The provider factories and the singleton slot\<close>

text \<open>
  \<open>singletonProvider\<close> is the module variable of line 32: \<open>None\<close> while it is
  \<^verbatim>\<open>undefined\<close>, else the reference of the provider object. \<open>objects\<close> lists the
  provider objects constructed so far, each as its constructor's name and arguments; a
  reference is an index into it, so a new object gets the reference \<open>length objects\<close>.
\<close>

record process =
  singletonProvider :: "nat option"
  objects :: "(string \<times> jsval list) list"

text \<open>
  The body shared by the six factories:
  \<^verbatim>\<open>if (!singletonProvider) { singletonProvider = new C(...args); } return singletonProvider;\<close>
  An object is truthy, so a filled slot is never replaced. The constructors are
  external; \<open>returns C args\<close> tells whether \<^verbatim>\<open>new C(...args)\<close> returns an object or
  throws, and a throw leaves the slot as it was.
\<close>

definition construct_once ::
  "(string \<Rightarrow> jsval list \<Rightarrow> bool) \<Rightarrow> string \<Rightarrow> jsval list \<Rightarrow> process \<Rightarrow> (error + nat) \<times> process" where
  "construct_once returns C args p =
     (case singletonProvider p of
        Some r \<Rightarrow> (Inr r, p)
      | None \<Rightarrow>
          if returns C args
          then (Inr (length (objects p)),
                p\<lparr>singletonProvider := Some (length (objects p)),
                  objects := objects p @ [(C, args)]\<rparr>)
          else (Inl (ConstructorThrew C args), p))"

definition legacyLedgerOptions :: "environment \<Rightarrow> jsval \<Rightarrow> obj" where
  "legacyLedgerOptions e networkId =
     [(''networkId'', networkId),
      (''accountsLength'', numKeys e),
      (''accountsOffset'', keyOffset e)]"

definition ledgerOptions :: "environment \<Rightarrow> jsval \<Rightarrow> obj" where
  "ledgerOptions e networkId =
     set_prop (spread [] (legacyLedgerOptions e networkId)) ''path'' (VStr ''44'/60'/0'/0/0'')"

text \<open>
  Calling a factory with the argument \<open>arg\<close> (\<^verbatim>\<open>undefined\<close> when the caller passes
  none): the default parameter \<^verbatim>\<open>provider = nodeUrl\<close> applies to \<^verbatim>\<open>undefined\<close> only.
  \<open>url\<close> is the module's \<^verbatim>\<open>nodeUrl\<close>. The metamask factory has no parameter.
\<close>

fun call_provider ::
  "(string \<Rightarrow> jsval list \<Rightarrow> bool) \<Rightarrow> host \<Rightarrow> string \<Rightarrow> provider_fn \<Rightarrow> jsval \<Rightarrow> jsval
     \<Rightarrow> process \<Rightarrow> (error + nat) \<times> process" where
  "call_provider returns h url gckms_provider networkId arg p =
     (let provider = (if arg = VUndefined then VStr url else arg)
      in construct_once returns ''ManagedSecretProvider''
           [VArr (GckmsConfig h), provider, VNum 0, VNum (int (length (GckmsConfig h)))] p)"
| "call_provider returns h url privatekey_provider networkId arg p =
     (let provider = (if arg = VUndefined then VStr url else arg)
      in construct_once returns ''HDWalletProvider''
           [VArr [VStr (privateKey (env h))], provider] p)"
| "call_provider returns h url mnemonic_provider networkId arg p =
     (let provider = (if arg = VUndefined then VStr url else arg)
      in construct_once returns ''HDWalletProvider''
           [VStr (mnemonic (env h)), provider, keyOffset (env h), numKeys (env h)] p)"
| "call_provider returns h url ledger_provider networkId arg p =
     (let provider = (if arg = VUndefined then VStr url else arg)
      in construct_once returns ''LedgerWalletProvider''
           [VObj (ledgerOptions (env h) networkId), provider] p)"
| "call_provider returns h url ledger_legacy_provider networkId arg p =
     (let provider = (if arg = VUndefined then VStr url else arg)
      in construct_once returns ''LedgerWalletProvider''
           [VObj (legacyLedgerOptions (env h) networkId), provider] p)"
| "call_provider returns h url metamask_provider networkId arg p =
     construct_once returns ''MetaMaskTruffleProvider'' [] p"

section \<open>\<^verbatim>\<open>path.join\<close> and \<^verbatim>\<open>getTruffleConfig\<close>\<close>

text \<open>
  \<^verbatim>\<open>path.join\<close> is Node's, on a POSIX platform: every argument must be a string (else a
  \<^verbatim>\<open>TypeError\<close>), the non-empty arguments are joined with \<^verbatim>\<open>/\<close>, and the result is
  normalised: empty and \<^verbatim>\<open>.\<close> segments are dropped, a \<^verbatim>\<open>..\<close> segment removes the segment
  before it (or is kept, in a relative path, when there is none to remove), a leading
  and a trailing \<^verbatim>\<open>/\<close> are kept, and an empty result is \<^verbatim>\<open>.\<close>.
\<close>

fun split_slash :: "string \<Rightarrow> string list" where
  "split_slash [] = [[]]"
| "split_slash (c # cs) =
     (if c = CHR ''/'' then [] # split_slash cs
      else (case split_slash cs of
              [] \<Rightarrow> [[c]]
            | s # ss \<Rightarrow> (c # s) # ss))"

fun join_slash :: "string list \<Rightarrow> string" where
  "join_slash [] = []"
| "join_slash [s] = s"
| "join_slash (s # t # ss) = s @ ''/'' @ join_slash (t # ss)"

fun normalizeString :: "bool \<Rightarrow> string list \<Rightarrow> string list \<Rightarrow> string list" where
  "normalizeString allowAboveRoot res [] = res"
| "normalizeString allowAboveRoot res (seg # segs) =
     (if seg = [] \<or> seg = ''.'' then normalizeString allowAboveRoot res segs
      else if seg = ''..'' then
        (if res \<noteq> [] \<and> last res \<noteq> ''..''
         then normalizeString allowAboveRoot (butlast res) segs
         else if allowAboveRoot
         then normalizeString allowAboveRoot (res @ [''..'']) segs
         else normalizeString allowAboveRoot res segs)
      else normalizeString allowAboveRoot (res @ [seg]) segs)"

definition normalize :: "string \<Rightarrow> string" where
  "normalize path =
     (if path = [] then ''.''
      else
        (let isAbsolute = (take 1 path = ''/'');
             trailingSeparator = (last path = CHR ''/'');
             p = join_slash (normalizeString (\<not> isAbsolute) [] (split_slash path))
         in if p = [] then (if isAbsolute then ''/'' else if trailingSeparator then ''./'' else ''.'')
            else (let p' = (if trailingSeparator then p @ ''/'' else p)
                  in if isAbsolute then ''/'' @ p' else p')))"

fun validated :: "jsval list \<Rightarrow> error + string list" where
  "validated [] = Inr []"
| "validated (VStr s # args) =
     (case validated args of Inl err \<Rightarrow> Inl err | Inr ss \<Rightarrow> Inr (s # ss))"
| "validated (v # args) = Inl (TypeError ''path'')"

definition path_join :: "jsval list \<Rightarrow> error + string" where
  "path_join args =
     (case validated args of
        Inl err \<Rightarrow> Inl err
      | Inr ss \<Rightarrow>
          (let joined = join_slash (filter (\<lambda>s. s \<noteq> []) ss)
           in if joined = [] then Inr ''.'' else Inr (normalize joined)))"

text \<open>The configuration record of lines 178 to 201.\<close>

record mocha_t =
  enableTimeouts :: bool
  before_timeout :: int

record optimizer_t =
  enabled :: bool
  runs :: int

record settings_t =
  optimizer :: optimizer_t

record solc_t =
  version :: string
  settings :: settings_t

record compilers_t =
  solc :: solc_t

record config =
  networks :: obj
  plugins :: "string list"
  mocha :: mocha_t
  compilers :: compilers_t
  migrations_directory :: string
  contracts_directory :: string
  contracts_build_directory :: string

text \<open>
  \<^verbatim>\<open>getTruffleConfig(truffleContextDir = "./")\<close>: the default applies to an omitted or
  \<^verbatim>\<open>undefined\<close> argument only. \<open>nets\<close> is the module's \<^verbatim>\<open>networks\<close>.
\<close>

definition getTruffleConfig :: "obj \<Rightarrow> jsval \<Rightarrow> error + config" where
  "getTruffleConfig nets arg =
     (let truffleContextDir = (if arg = VUndefined then VStr ''./'' else arg)
      in case path_join [truffleContextDir, VStr ''migrations''] of
           Inl err \<Rightarrow> Inl err
         | Inr m \<Rightarrow>
        (case path_join [truffleContextDir, VStr ''contracts''] of
           Inl err \<Rightarrow> Inl err
         | Inr c \<Rightarrow>
        (case path_join [truffleContextDir, VStr ''build/contracts''] of
           Inl err \<Rightarrow> Inl err
         | Inr b \<Rightarrow>
             Inr \<lparr>networks = nets,
                  plugins = [''solidity-coverage''],
                  mocha = \<lparr>enableTimeouts = False, before_timeout = 1800000\<rparr>,
                  compilers =
                    \<lparr>solc = \<lparr>version = ''0.6.12'',
                             settings = \<lparr>optimizer = \<lparr>enabled = True, runs = 199\<rparr>\<rparr>\<rparr>\<rparr>,
                  migrations_directory = m,
                  contracts_directory = c,
                  contracts_build_directory = b\<rparr>)))"

section \<open>Predicates of the properties\<close>

text \<open>A value that is an integer, at least \<open>n\<close>; \<^verbatim>\<open>NaN\<close> is not.\<close>

definition is_integer_at_least :: "int \<Rightarrow> jsval \<Rightarrow> bool" where
  "is_integer_at_least n v = (case v of VNum i \<Rightarrow> n \<le> i | _ \<Rightarrow> False)"

text \<open>
  A string of at most 15 characters, each one of \<^verbatim>\<open>0\<close> to \<^verbatim>\<open>9\<close>: its value is below
  \<open>2 ^ 53\<close>, so \<^verbatim>\<open>parseInt\<close> returns it exactly.
\<close>

definition decimal_digit :: "char \<Rightarrow> bool" where
  "decimal_digit c = (48 \<le> (of_char c :: nat) \<and> (of_char c :: nat) \<le> 57)"

definition decimal_numeral :: "string \<Rightarrow> bool" where
  "decimal_numeral s = (list_all decimal_digit s \<and> length s \<le> 15)"

section \<open>Properties of objects\<close>

lemma get_prop_Nil: "get_prop [] k = None"
  by (simp add: get_prop_def)

lemma get_prop_Cons:
  "get_prop ((k0, v0) # ps) k = (if k = k0 then Some v0 else get_prop ps k)"
  by (simp add: get_prop_def)

lemma get_prop_set_prop:
  "get_prop (set_prop ob k v) k' = (if k' = k then Some v else get_prop ob k')"
  by (induction ob) (auto simp: get_prop_def)

lemma get_prop_None_iff: "get_prop ob k = None \<longleftrightarrow> k \<notin> set (map fst ob)"
  by (simp add: get_prop_def map_of_eq_None_iff)

lemma map_fst_set_prop:
  "map fst (set_prop ob k v) = (if k \<in> set (map fst ob) then map fst ob else map fst ob @ [k])"
  by (induction ob) (simp, force)

lemma keys_set_prop: "set (map fst (set_prop ob k v)) = insert k (set (map fst ob))"
  by (simp only: map_fst_set_prop) auto

lemma length_set_prop:
  "length (set_prop ob k v) = (if k \<in> set (map fst ob) then length ob else Suc (length ob))"
  using arg_cong [OF map_fst_set_prop, of length ob k v] by (simp split: if_splits)

lemma get_prop_spread:
  "distinct (map fst ps) \<Longrightarrow>
   get_prop (spread target ps) k =
     (case get_prop ps k of Some v \<Rightarrow> Some v | None \<Rightarrow> get_prop target k)"
proof (induction ps arbitrary: target)
  case Nil
  then show ?case by (simp add: get_prop_Nil)
next
  case (Cons kv ps)
  obtain k0 v0 where kv: "kv = (k0, v0)" by (cases kv)
  from Cons.prems kv have d: "distinct (map fst ps)" and nin: "k0 \<notin> set (map fst ps)" by auto
  from nin have none: "get_prop ps k0 = None"
    by (simp only: get_prop_None_iff not_False_eq_True)
  show ?case
    using Cons.IH [OF d, of "set_prop target k0 v0"] none
    by (auto simp: kv get_prop_set_prop get_prop_Cons split: option.splits)
qed

lemma get_prop_set_member:
  "get_prop ob k = Some (VObj entry) \<Longrightarrow>
   get_prop (set_member ob k f v) k' =
     (if k' = k then Some (VObj (set_prop entry f v)) else get_prop ob k')"
  by (simp add: set_member_def get_prop_set_prop)

section \<open>Local networks\<close>

lemma defaultOptions_literal:
  "spread [] [(''host'', VStr ''127.0.0.1''), (''network_id'', VStr ''*''),
              (''port'', VNum 9545), (''gas'', VUndefined)] =
   [(''host'', VStr ''127.0.0.1''), (''network_id'', VStr ''*''),
    (''port'', VNum 9545), (''gas'', VUndefined)]"
  by simp

lemma get_prop_addLocalNetwork_other:
  "k \<noteq> name \<Longrightarrow> get_prop (addLocalNetwork e nets name customOptions) k = get_prop nets k"
  by (simp add: addLocalNetwork_def Let_def set_member_def get_prop_set_prop
        split: option.splits jsval.splits)

lemma get_member_addLocalNetwork_other:
  "k \<noteq> name \<Longrightarrow>
   get_member (addLocalNetwork e nets name customOptions) k f = get_member nets k f"
  by (simp add: get_member_def get_prop_addLocalNetwork_other)

lemma get_member_addLocalNetwork:
  assumes "distinct (map fst (case customOptions of None \<Rightarrow> [] | Some c \<Rightarrow> c))"
  shows "get_member (addLocalNetwork e nets name customOptions) name f =
     (case (if f = ''host'' then e ''LOCALHOST''
            else if f = ''port'' then e ''LOCALPORT'' else None) of
        Some v \<Rightarrow> Some (VStr v)
      | None \<Rightarrow>
          (case get_prop (case customOptions of None \<Rightarrow> [] | Some c \<Rightarrow> c) f of
             Some v \<Rightarrow> Some v
           | None \<Rightarrow>
               get_prop [(''host'', VStr ''127.0.0.1''), (''network_id'', VStr ''*''),
                         (''port'', VNum 9545), (''gas'', VUndefined)] f))"
proof -
  let ?d = "[(''host'', VStr ''127.0.0.1''), (''network_id'', VStr ''*''),
             (''port'', VNum 9545), (''gas'', VUndefined)]"
  let ?c = "case customOptions of None \<Rightarrow> [] | Some c \<Rightarrow> c"
  let ?base = "spread ?d ?c"
  let ?n1 = "set_prop nets name (VObj ?base)"
  let ?n2 = "case e ''LOCALHOST'' of
               Some v \<Rightarrow> set_member ?n1 name ''host'' (VStr v) | None \<Rightarrow> ?n1"
  let ?e2 = "case e ''LOCALHOST'' of
               Some v \<Rightarrow> set_prop ?base ''host'' (VStr v) | None \<Rightarrow> ?base"
  let ?n3 = "case e ''LOCALPORT'' of
               Some v \<Rightarrow> set_member ?n2 name ''port'' (VStr v) | None \<Rightarrow> ?n2"
  let ?e3 = "case e ''LOCALPORT'' of
               Some v \<Rightarrow> set_prop ?e2 ''port'' (VStr v) | None \<Rightarrow> ?e2"
  have unfold: "addLocalNetwork e nets name customOptions = ?n3"
    unfolding addLocalNetwork_def Let_def gas_def defaultOptions_literal by (rule refl)
  have n1: "get_prop ?n1 name = Some (VObj ?base)"
    by (simp add: get_prop_set_prop)
  have n2: "get_prop ?n2 name = Some (VObj ?e2)"
    using n1 by (cases "e ''LOCALHOST''") (simp_all add: get_prop_set_member)
  have n3: "get_prop ?n3 name = Some (VObj ?e3)"
    using n2 by (cases "e ''LOCALPORT''") (simp_all add: get_prop_set_member)
  have base: "get_prop ?base f =
      (case get_prop ?c f of Some v \<Rightarrow> Some v | None \<Rightarrow> get_prop ?d f)"
    using assms by (rule get_prop_spread)
  have m: "get_member ?n3 name f = get_prop ?e3 f"
    using n3 by (simp add: get_member_def)
  have "get_prop ?e3 f =
     (case (if f = ''host'' then e ''LOCALHOST''
            else if f = ''port'' then e ''LOCALPORT'' else None) of
        Some v \<Rightarrow> Some (VStr v)
      | None \<Rightarrow> get_prop ?base f)"
    by (cases "e ''LOCALHOST''"; cases "e ''LOCALPORT''") (simp_all add: get_prop_set_prop)
  then show ?thesis
    by (simp only: unfold m base)
qed

text \<open>
  C3. For every local network name and every optional override record, each field of the
  entry that \<open>addLocalNetwork\<close> registers is read from the caller's overrides when they
  have it and from the defaults \<^verbatim>\<open>{host: "127.0.0.1", network_id: "*", port: 9545, gas:
  undefined}\<close> otherwise, except that \<open>host\<close> is the value of \<^verbatim>\<open>LOCALHOST\<close> and \<open>port\<close>
  the value of \<^verbatim>\<open>LOCALPORT\<close> whenever that variable is present in the environment; no
  other field depends on the environment. The hypothesis says that the override record
  is an object: its property names are distinct.
\<close>

theorem addLocalNetwork_merge_and_env_override:
  assumes "distinct (map fst (case customOptions of None \<Rightarrow> [] | Some c \<Rightarrow> c))"
  shows "get_member (addLocalNetwork e nets name customOptions) name f =
     (case (if f = ''host'' then e ''LOCALHOST''
            else if f = ''port'' then e ''LOCALPORT'' else None) of
        Some v \<Rightarrow> Some (VStr v)
      | None \<Rightarrow>
          (case get_prop (case customOptions of None \<Rightarrow> [] | Some c \<Rightarrow> c) f of
             Some v \<Rightarrow> Some v
           | None \<Rightarrow>
               get_prop [(''host'', VStr ''127.0.0.1''), (''network_id'', VStr ''*''),
                         (''port'', VNum 9545), (''gas'', VUndefined)] f))"
  using assms by (rule get_member_addLocalNetwork)

theorem addLocalNetwork_merge_and_env_override_witness:
  "get_member
     (addLocalNetwork [''LOCALHOST'' \<mapsto> ''10.0.0.7''] [] ''ci''
        (Some [(''port'', VNum 8545), (''network_id'', VNum 1234), (''host'', VStr ''ganache'')]))
     ''ci'' ''host'' = Some (VStr ''10.0.0.7'')
   \<and> get_member
     (addLocalNetwork [''LOCALHOST'' \<mapsto> ''10.0.0.7''] [] ''ci''
        (Some [(''port'', VNum 8545), (''network_id'', VNum 1234), (''host'', VStr ''ganache'')]))
     ''ci'' ''port'' = Some (VNum 8545)
   \<and> get_member
     (addLocalNetwork [''LOCALHOST'' \<mapsto> ''10.0.0.7''] [] ''ci''
        (Some [(''port'', VNum 8545), (''network_id'', VNum 1234), (''host'', VStr ''ganache'')]))
     ''ci'' ''gas'' = Some VUndefined"
proof -
  let ?c = "Some [(''port'', VNum 8545), (''network_id'', VNum 1234), (''host'', VStr ''ganache'')]"
  have d: "distinct (map fst (case ?c of None \<Rightarrow> [] | Some c \<Rightarrow> c))"
    by simp
  show ?thesis
    using addLocalNetwork_merge_and_env_override
            [OF d, of "[''LOCALHOST'' \<mapsto> ''10.0.0.7'']" "[]" "''ci''" "''host''"]
          addLocalNetwork_merge_and_env_override
            [OF d, of "[''LOCALHOST'' \<mapsto> ''10.0.0.7'']" "[]" "''ci''" "''port''"]
          addLocalNetwork_merge_and_env_override
            [OF d, of "[''LOCALHOST'' \<mapsto> ''10.0.0.7'']" "[]" "''ci''" "''gas''"]
    by (simp add: get_prop_def)
qed

section \<open>Credentials\<close>

text \<open>
  C4. With \<^verbatim>\<open>MNEMONIC\<close>, \<^verbatim>\<open>PRIVATE_KEY\<close> and \<^verbatim>\<open>INFURA_API_KEY\<close> all unset, the mnemonic,
  the private key and the API key are the three fallback literals.
\<close>

theorem credentials_fall_back_when_unset:
  assumes "e ''MNEMONIC'' = None" and "e ''PRIVATE_KEY'' = None"
    and "e ''INFURA_API_KEY'' = None"
  shows "mnemonic e = ''candy maple cake sugar pudding cream honey rich smooth crumble sweet treat''
    \<and> privateKey e = ''0x348ce564d427a3311b6536bbcff9390d69395b06ed6c486954e971d960fe8709''
    \<and> infuraApiKey e = ''e34138b2db5b496ab5cc52319d2f0299''"
  using assms by (simp add: mnemonic_def privateKey_def infuraApiKey_def)

theorem credentials_fall_back_when_unset_witness:
  "mnemonic [''LOCALPORT'' \<mapsto> ''9999''] =
     ''candy maple cake sugar pudding cream honey rich smooth crumble sweet treat''
   \<and> privateKey [''LOCALPORT'' \<mapsto> ''9999''] =
     ''0x348ce564d427a3311b6536bbcff9390d69395b06ed6c486954e971d960fe8709''
   \<and> infuraApiKey [''LOCALPORT'' \<mapsto> ''9999''] = ''e34138b2db5b496ab5cc52319d2f0299''"
  using credentials_fall_back_when_unset [of "[''LOCALPORT'' \<mapsto> ''9999'']"]
  by simp

text \<open>
  C10. The local-network override tests presence: with \<^verbatim>\<open>LOCALHOST\<close> (or \<^verbatim>\<open>LOCALPORT\<close>)
  present and empty, the host (or port) of every entry that \<open>addLocalNetwork\<close> registers
  is the empty string. The credentials test truthiness: an empty \<^verbatim>\<open>MNEMONIC\<close>,
  \<^verbatim>\<open>PRIVATE_KEY\<close> or \<^verbatim>\<open>INFURA_API_KEY\<close> gives the fallback literal.
\<close>

theorem presence_overrides_and_empty_credentials_fall_back:
  "(e ''LOCALHOST'' = Some [] \<longrightarrow>
      get_member (addLocalNetwork e nets name customOptions) name ''host'' = Some (VStr []))
   \<and> (e ''LOCALPORT'' = Some [] \<longrightarrow>
      get_member (addLocalNetwork e nets name customOptions) name ''port'' = Some (VStr []))
   \<and> (e ''MNEMONIC'' = Some [] \<longrightarrow>
      mnemonic e = ''candy maple cake sugar pudding cream honey rich smooth crumble sweet treat'')
   \<and> (e ''PRIVATE_KEY'' = Some [] \<longrightarrow>
      privateKey e = ''0x348ce564d427a3311b6536bbcff9390d69395b06ed6c486954e971d960fe8709'')
   \<and> (e ''INFURA_API_KEY'' = Some [] \<longrightarrow>
      infuraApiKey e = ''e34138b2db5b496ab5cc52319d2f0299'')"
proof -
  let ?base = "spread (spread [] [(''host'', VStr ''127.0.0.1''), (''network_id'', VStr ''*''),
                                  (''port'', VNum 9545), (''gas'', gas)])
                 (case customOptions of None \<Rightarrow> [] | Some c \<Rightarrow> c)"
  have n1: "get_prop (set_prop nets name (VObj ?base)) name = Some (VObj ?base)"
    by (simp add: get_prop_set_prop)
  have host: "get_member (addLocalNetwork e nets name customOptions) name ''host'' = Some (VStr [])"
    if "e ''LOCALHOST'' = Some []"
    using that n1 unfolding addLocalNetwork_def Let_def get_member_def
    by (cases "e ''LOCALPORT''")
       (simp_all add: get_prop_set_member get_prop_set_prop)
  have port: "get_member (addLocalNetwork e nets name customOptions) name ''port'' = Some (VStr [])"
    if "e ''LOCALPORT'' = Some []"
    using that n1 unfolding addLocalNetwork_def Let_def get_member_def
    by (cases "e ''LOCALHOST''")
       (simp_all add: get_prop_set_member get_prop_set_prop)
  show ?thesis
    using host port by (simp add: mnemonic_def privateKey_def infuraApiKey_def)
qed

theorem presence_overrides_and_empty_credentials_fall_back_witness:
  "get_member
     (addLocalNetwork
        [''LOCALHOST'' \<mapsto> [], ''LOCALPORT'' \<mapsto> [], ''MNEMONIC'' \<mapsto> [],
         ''PRIVATE_KEY'' \<mapsto> [], ''INFURA_API_KEY'' \<mapsto> []]
        [] ''develop'' None) ''develop'' ''host'' = Some (VStr [])
   \<and> get_member
     (addLocalNetwork
        [''LOCALHOST'' \<mapsto> [], ''LOCALPORT'' \<mapsto> [], ''MNEMONIC'' \<mapsto> [],
         ''PRIVATE_KEY'' \<mapsto> [], ''INFURA_API_KEY'' \<mapsto> []]
        [] ''develop'' None) ''develop'' ''port'' = Some (VStr [])
   \<and> mnemonic
        [''LOCALHOST'' \<mapsto> [], ''LOCALPORT'' \<mapsto> [], ''MNEMONIC'' \<mapsto> [],
         ''PRIVATE_KEY'' \<mapsto> [], ''INFURA_API_KEY'' \<mapsto> []] =
       ''candy maple cake sugar pudding cream honey rich smooth crumble sweet treat''
   \<and> privateKey
        [''LOCALHOST'' \<mapsto> [], ''LOCALPORT'' \<mapsto> [], ''MNEMONIC'' \<mapsto> [],
         ''PRIVATE_KEY'' \<mapsto> [], ''INFURA_API_KEY'' \<mapsto> []] =
       ''0x348ce564d427a3311b6536bbcff9390d69395b06ed6c486954e971d960fe8709''
   \<and> infuraApiKey
        [''LOCALHOST'' \<mapsto> [], ''LOCALPORT'' \<mapsto> [], ''MNEMONIC'' \<mapsto> [],
         ''PRIVATE_KEY'' \<mapsto> [], ''INFURA_API_KEY'' \<mapsto> []] =
       ''e34138b2db5b496ab5cc52319d2f0299''"
  using presence_overrides_and_empty_credentials_fall_back
          [of "[''LOCALHOST'' \<mapsto> [], ''LOCALPORT'' \<mapsto> [], ''MNEMONIC'' \<mapsto> [],
                ''PRIVATE_KEY'' \<mapsto> [], ''INFURA_API_KEY'' \<mapsto> []]" "[]" "''develop''" None]
  by simp

section \<open>Public networks\<close>

lemma options_literal:
  "spread [] [(''networkCheckTimeout'', VNum 10000), (''network_id'', networkId),
              (''gas'', VUndefined), (''gasPrice'', VNum 20000000000)] =
   [(''networkCheckTimeout'', VNum 10000), (''network_id'', networkId),
    (''gas'', VUndefined), (''gasPrice'', VNum 20000000000)]"
  by simp

lemma public_entry_literal:
  "set_prop [(''networkCheckTimeout'', VNum 10000), (''network_id'', networkId),
             (''gas'', VUndefined), (''gasPrice'', VNum 20000000000)] ''provider'' f =
   [(''networkCheckTimeout'', VNum 10000), (''network_id'', networkId),
    (''gas'', VUndefined), (''gasPrice'', VNum 20000000000), (''provider'', f)]"
  by simp

lemma addPublicNetwork_unfold:
  "addPublicNetwork nets name networkId =
     set_prop (set_prop (set_prop (set_prop (set_prop nets
       (name @ ''_gckms'')
         (VObj [(''networkCheckTimeout'', VNum 10000), (''network_id'', networkId),
                (''gas'', VUndefined), (''gasPrice'', VNum 20000000000),
                (''provider'', VFun gckms_provider networkId)]))
       (name @ ''_privatekey'')
         (VObj [(''networkCheckTimeout'', VNum 10000), (''network_id'', networkId),
                (''gas'', VUndefined), (''gasPrice'', VNum 20000000000),
                (''provider'', VFun privatekey_provider networkId)]))
       (name @ ''_mnemonic'')
         (VObj [(''networkCheckTimeout'', VNum 10000), (''network_id'', networkId),
                (''gas'', VUndefined), (''gasPrice'', VNum 20000000000),
                (''provider'', VFun mnemonic_provider networkId)]))
       (name @ ''_ledger'')
         (VObj [(''networkCheckTimeout'', VNum 10000), (''network_id'', networkId),
                (''gas'', VUndefined), (''gasPrice'', VNum 20000000000),
                (''provider'', VFun ledger_provider networkId)]))
       (name @ ''_ledger_legacy'')
         (VObj [(''networkCheckTimeout'', VNum 10000), (''network_id'', networkId),
                (''gas'', VUndefined), (''gasPrice'', VNum 20000000000),
                (''provider'', VFun ledger_legacy_provider networkId)])"
  unfolding addPublicNetwork_def Let_def gas_def gasPx_def options_literal public_entry_literal
  by (rule refl)

lemma get_prop_addPublicNetwork_other:
  "k \<notin> set [name @ ''_gckms'', name @ ''_privatekey'', name @ ''_mnemonic'',
              name @ ''_ledger'', name @ ''_ledger_legacy''] \<Longrightarrow>
   get_prop (addPublicNetwork nets name networkId) k = get_prop nets k"
  by (simp add: addPublicNetwork_unfold get_prop_set_prop)

lemma keys_addPublicNetwork:
  "set (map fst (addPublicNetwork nets name networkId)) =
     set (map fst nets) \<union>
     set [name @ ''_gckms'', name @ ''_privatekey'', name @ ''_mnemonic'',
          name @ ''_ledger'', name @ ''_ledger_legacy'']"
  unfolding addPublicNetwork_unfold keys_set_prop by auto

lemma length_addPublicNetwork:
  assumes "set [name @ ''_gckms'', name @ ''_privatekey'', name @ ''_mnemonic'',
                name @ ''_ledger'', name @ ''_ledger_legacy''] \<inter> set (map fst nets) = {}"
  shows "length (addPublicNetwork nets name networkId) = length nets + 5"
proof -
  have fresh: "name @ ''_gckms'' \<notin> set (map fst nets)"
    "name @ ''_privatekey'' \<notin> set (map fst nets)"
    "name @ ''_mnemonic'' \<notin> set (map fst nets)"
    "name @ ''_ledger'' \<notin> set (map fst nets)"
    "name @ ''_ledger_legacy'' \<notin> set (map fst nets)"
    using assms by auto
  show ?thesis
    unfolding addPublicNetwork_unfold length_set_prop keys_set_prop
    using fresh by simp
qed

text \<open>
  C2. For every network name and network id, \<open>addPublicNetwork\<close> registers five entries
  under the keys \<^verbatim>\<open>{name}_gckms\<close>, \<^verbatim>\<open>{name}_privatekey\<close>, \<^verbatim>\<open>{name}_mnemonic\<close>,
  \<^verbatim>\<open>{name}_ledger\<close> and \<^verbatim>\<open>{name}_ledger_legacy\<close>. Each entry is the base options
  \<^verbatim>\<open>{networkCheckTimeout: 10000, network_id: networkId, gas: undefined, gasPrice:
  20000000000}\<close> followed by its own \<open>provider\<close> factory, and the five factories differ.
  The five keys are pairwise distinct, every other key of the registry keeps its value,
  the keys of the registry grow by exactly these five, and a registry that had none of
  them grows by five entries.
\<close>

theorem addPublicNetwork_registers_five_entries:
  "get_prop (addPublicNetwork nets name networkId) (name @ ''_gckms'') =
     Some (VObj [(''networkCheckTimeout'', VNum 10000), (''network_id'', networkId),
                 (''gas'', VUndefined), (''gasPrice'', VNum 20000000000),
                 (''provider'', VFun gckms_provider networkId)])
   \<and> get_prop (addPublicNetwork nets name networkId) (name @ ''_privatekey'') =
     Some (VObj [(''networkCheckTimeout'', VNum 10000), (''network_id'', networkId),
                 (''gas'', VUndefined), (''gasPrice'', VNum 20000000000),
                 (''provider'', VFun privatekey_provider networkId)])
   \<and> get_prop (addPublicNetwork nets name networkId) (name @ ''_mnemonic'') =
     Some (VObj [(''networkCheckTimeout'', VNum 10000), (''network_id'', networkId),
                 (''gas'', VUndefined), (''gasPrice'', VNum 20000000000),
                 (''provider'', VFun mnemonic_provider networkId)])
   \<and> get_prop (addPublicNetwork nets name networkId) (name @ ''_ledger'') =
     Some (VObj [(''networkCheckTimeout'', VNum 10000), (''network_id'', networkId),
                 (''gas'', VUndefined), (''gasPrice'', VNum 20000000000),
                 (''provider'', VFun ledger_provider networkId)])
   \<and> get_prop (addPublicNetwork nets name networkId) (name @ ''_ledger_legacy'') =
     Some (VObj [(''networkCheckTimeout'', VNum 10000), (''network_id'', networkId),
                 (''gas'', VUndefined), (''gasPrice'', VNum 20000000000),
                 (''provider'', VFun ledger_legacy_provider networkId)])
   \<and> distinct [name @ ''_gckms'', name @ ''_privatekey'', name @ ''_mnemonic'',
                name @ ''_ledger'', name @ ''_ledger_legacy'']
   \<and> (k \<notin> set [name @ ''_gckms'', name @ ''_privatekey'', name @ ''_mnemonic'',
                 name @ ''_ledger'', name @ ''_ledger_legacy''] \<longrightarrow>
        get_prop (addPublicNetwork nets name networkId) k = get_prop nets k)
   \<and> set (map fst (addPublicNetwork nets name networkId)) =
        set (map fst nets) \<union>
        set [name @ ''_gckms'', name @ ''_privatekey'', name @ ''_mnemonic'',
             name @ ''_ledger'', name @ ''_ledger_legacy'']
   \<and> (set [name @ ''_gckms'', name @ ''_privatekey'', name @ ''_mnemonic'',
            name @ ''_ledger'', name @ ''_ledger_legacy''] \<inter> set (map fst nets) = {} \<longrightarrow>
        length (addPublicNetwork nets name networkId) = length nets + 5)"
proof -
  have entries:
    "get_prop (addPublicNetwork nets name networkId) (name @ ''_gckms'') =
       Some (VObj [(''networkCheckTimeout'', VNum 10000), (''network_id'', networkId),
                   (''gas'', VUndefined), (''gasPrice'', VNum 20000000000),
                   (''provider'', VFun gckms_provider networkId)])"
    "get_prop (addPublicNetwork nets name networkId) (name @ ''_privatekey'') =
       Some (VObj [(''networkCheckTimeout'', VNum 10000), (''network_id'', networkId),
                   (''gas'', VUndefined), (''gasPrice'', VNum 20000000000),
                   (''provider'', VFun privatekey_provider networkId)])"
    "get_prop (addPublicNetwork nets name networkId) (name @ ''_mnemonic'') =
       Some (VObj [(''networkCheckTimeout'', VNum 10000), (''network_id'', networkId),
                   (''gas'', VUndefined), (''gasPrice'', VNum 20000000000),
                   (''provider'', VFun mnemonic_provider networkId)])"
    "get_prop (addPublicNetwork nets name networkId) (name @ ''_ledger'') =
       Some (VObj [(''networkCheckTimeout'', VNum 10000), (''network_id'', networkId),
                   (''gas'', VUndefined), (''gasPrice'', VNum 20000000000),
                   (''provider'', VFun ledger_provider networkId)])"
    "get_prop (addPublicNetwork nets name networkId) (name @ ''_ledger_legacy'') =
       Some (VObj [(''networkCheckTimeout'', VNum 10000), (''network_id'', networkId),
                   (''gas'', VUndefined), (''gasPrice'', VNum 20000000000),
                   (''provider'', VFun ledger_legacy_provider networkId)])"
    by (simp_all add: addPublicNetwork_unfold get_prop_set_prop)
  have keys: "distinct [name @ ''_gckms'', name @ ''_privatekey'', name @ ''_mnemonic'',
                        name @ ''_ledger'', name @ ''_ledger_legacy'']"
    by simp
  show ?thesis
    using entries keys get_prop_addPublicNetwork_other [of k name nets networkId]
      keys_addPublicNetwork [of nets name networkId]
      length_addPublicNetwork [of name nets networkId]
    by blast
qed

theorem addPublicNetwork_registers_five_entries_witness:
  "get_prop (addPublicNetwork [(''ci'', VObj [])] ''kovan'' (VStr ''42'')) ''kovan_ledger'' =
     Some (VObj [(''networkCheckTimeout'', VNum 10000), (''network_id'', VStr ''42''),
                 (''gas'', VUndefined), (''gasPrice'', VNum 20000000000),
                 (''provider'', VFun ledger_provider (VStr ''42''))])
   \<and> get_prop (addPublicNetwork [(''ci'', VObj [])] ''kovan'' (VStr ''42'')) ''ci'' = Some (VObj [])
   \<and> length (addPublicNetwork [(''ci'', VObj [])] ''kovan'' (VStr ''42'')) = 6"
  using addPublicNetwork_registers_five_entries
          [of "[(''ci'', VObj [])]" "''kovan''" "VStr ''42''" "''ci''"]
  by (simp add: get_prop_def)

section \<open>Loading the module\<close>

text \<open>
  C5. The claim is that building the configuration signals no error for any environment.
  In Node.js, with \<^verbatim>\<open>CUSTOM_NODE_URL\<close> unset, line 39 evaluates the template literal and
  with it the identifier \<^verbatim>\<open>name\<close>, which has no binding at module scope: the module body
  stops with a \<^verbatim>\<open>ReferenceError\<close> before any network is registered, whatever the two
  collaborator tables hold.
\<close>

theorem load_empty_environment_throws:
  "load \<lparr>env = Map.empty, global_name = None, PublicNetworks = pn, GckmsConfig = gc\<rparr> =
     Inl (ReferenceError ''name'')"
  by (simp add: load_def nodeUrl_def customNodeUrl_def)

lemma load_networks:
  assumes "load h = Inr m"
  shows "module_networks m =
     addLocalNetwork (env h)
       (addLocalNetwork (env h)
         (addLocalNetwork (env h)
           (addLocalNetwork (env h)
             (addLocalNetwork (env h)
               (addLocalNetwork (env h) (addPublicNetworks [] (PublicNetworks h)) ''ci''
                  (Some [(''port'', VNum 8545), (''network_id'', VNum 1234)]))
               ''develop'' None)
             ''test'' None)
           ''coverage'' (Some [(''port'', VNum 8545), (''network_id'', VNum 1234)]))
         ''metamask''
           (Some [(''networkCheckTimeout'', VNum 500000),
                  (''provider'', VFun metamask_provider VUndefined)]))
       ''mainnet-fork'' (Some [(''port'', VNum 1235), (''network_id'', VNum 1)])"
proof (cases "nodeUrl h")
  case (Inl err)
  with assms show ?thesis by (simp add: load_def)
next
  case (Inr url)
  with assms have "m = \<lparr>exported_nodeUrl = url, module_networks =
     addLocalNetwork (env h)
       (addLocalNetwork (env h)
         (addLocalNetwork (env h)
           (addLocalNetwork (env h)
             (addLocalNetwork (env h)
               (addLocalNetwork (env h) (addPublicNetworks [] (PublicNetworks h)) ''ci''
                  (Some [(''port'', VNum 8545), (''network_id'', VNum 1234)]))
               ''develop'' None)
             ''test'' None)
           ''coverage'' (Some [(''port'', VNum 8545), (''network_id'', VNum 1234)]))
         ''metamask''
           (Some [(''networkCheckTimeout'', VNum 500000),
                  (''provider'', VFun metamask_provider VUndefined)]))
       ''mainnet-fork'' (Some [(''port'', VNum 1235), (''network_id'', VNum 1)])\<rparr>"
    by (simp add: load_def Let_def)
  then show ?thesis by simp
qed

text \<open>
  C8, as the code has it. Whenever the module loads and \<^verbatim>\<open>LOCALPORT\<close> is \<^verbatim>\<open>"9999"\<close>, the
  port of the registered \<open>develop\<close> entry is that string, as the environment gave it.
\<close>

theorem develop_port_is_LOCALPORT_string:
  assumes "load h = Inr m" and "env h ''LOCALPORT'' = Some ''9999''"
  shows "get_member (module_networks m) ''develop'' ''port'' = Some (VStr ''9999'')"
proof -
  have d: "distinct (map fst (case (None :: obj option) of None \<Rightarrow> [] | Some c \<Rightarrow> c))"
    by simp
  show ?thesis
    unfolding load_networks [OF assms(1)]
    using assms(2) get_member_addLocalNetwork [OF d, of "env h" _ "''develop''" "''port''"]
    by (simp add: get_member_addLocalNetwork_other)
qed

theorem develop_port_is_LOCALPORT_string_witness:
  "get_member
     (module_networks
        (projr (load \<lparr>env = [''CUSTOM_NODE_URL'' \<mapsto> ''ws://127.0.0.1:8546'',
                             ''LOCALPORT'' \<mapsto> ''9999''],
                      global_name = None,
                      PublicNetworks = [(''1'', ''mainnet''), (''42'', ''kovan'')],
                      GckmsConfig = []\<rparr>)))
     ''develop'' ''port'' = Some (VStr ''9999'')"
proof -
  let ?h = "\<lparr>env = [''CUSTOM_NODE_URL'' \<mapsto> ''ws://127.0.0.1:8546'',
                    ''LOCALPORT'' \<mapsto> ''9999''],
             global_name = None,
             PublicNetworks = [(''1'', ''mainnet''), (''42'', ''kovan'')],
             GckmsConfig = []\<rparr>"
  have "\<exists>m. load ?h = Inr m"
    by (simp add: load_def nodeUrl_def customNodeUrl_def Let_def)
  then obtain m where m: "load ?h = Inr m" ..
  have p: "env ?h ''LOCALPORT'' = Some ''9999''" by simp
  show ?thesis
    using develop_port_is_LOCALPORT_string [OF m p] by (simp add: m)
qed

text \<open>
  C8 as stated asks for the number 9999. At a host where the module loads, the port of
  \<open>develop\<close> is not that number.
\<close>

theorem develop_port_number_counterexample:
  "\<not> isl (load \<lparr>env = [''CUSTOM_NODE_URL'' \<mapsto> ''ws://127.0.0.1:8546'',
                       ''LOCALPORT'' \<mapsto> ''9999''],
                global_name = None,
                PublicNetworks = [(''1'', ''mainnet''), (''42'', ''kovan'')],
                GckmsConfig = []\<rparr>)
   \<and> get_member
     (module_networks
        (projr (load \<lparr>env = [''CUSTOM_NODE_URL'' \<mapsto> ''ws://127.0.0.1:8546'',
                             ''LOCALPORT'' \<mapsto> ''9999''],
                      global_name = None,
                      PublicNetworks = [(''1'', ''mainnet''), (''42'', ''kovan'')],
                      GckmsConfig = []\<rparr>)))
     ''develop'' ''port'' \<noteq> Some (VNum 9999)"
proof -
  let ?h = "\<lparr>env = [''CUSTOM_NODE_URL'' \<mapsto> ''ws://127.0.0.1:8546'',
                    ''LOCALPORT'' \<mapsto> ''9999''],
             global_name = None,
             PublicNetworks = [(''1'', ''mainnet''), (''42'', ''kovan'')],
             GckmsConfig = []\<rparr>"
  have "\<exists>m. load ?h = Inr m"
    by (simp add: load_def nodeUrl_def customNodeUrl_def Let_def)
  then obtain m where m: "load ?h = Inr m" ..
  have d: "distinct (map fst (case (None :: obj option) of None \<Rightarrow> [] | Some c \<Rightarrow> c))"
    by simp
  have "get_member (module_networks m) ''develop'' ''port'' = Some (VStr ''9999'')"
    unfolding load_networks [OF m]
    using get_member_addLocalNetwork [OF d, of "env ?h" _ "''develop''" "''port''"]
    by (simp add: get_member_addLocalNetwork_other)
  then show ?thesis by (simp add: m)
qed

section \<open>The configuration record\<close>

lemma path_join_dot_slash:
  "path_join [VStr ''./'', VStr ''migrations''] = Inr ''migrations''"
  "path_join [VStr ''./'', VStr ''contracts''] = Inr ''contracts''"
  "path_join [VStr ''./'', VStr ''build/contracts''] = Inr ''build/contracts''"
  by (simp_all add: path_join_def normalize_def Let_def)

lemma path_join_strings: "\<exists>p. path_join [VStr s, VStr t] = Inr p"
  by (simp add: path_join_def Let_def)

text \<open>
  C6, as the code has it. For the context directory \<^verbatim>\<open>"./"\<close>, and so for an omitted one,
  \<^verbatim>\<open>path.join\<close> normalises the joined path and the leading \<^verbatim>\<open>./\<close> is gone: the three
  directories are \<^verbatim>\<open>migrations\<close>, \<^verbatim>\<open>contracts\<close> and \<^verbatim>\<open>build/contracts\<close>.
\<close>

theorem getTruffleConfig_dot_slash_directories:
  "getTruffleConfig nets (VStr ''./'') =
     Inr \<lparr>networks = nets,
          plugins = [''solidity-coverage''],
          mocha = \<lparr>enableTimeouts = False, before_timeout = 1800000\<rparr>,
          compilers =
            \<lparr>solc = \<lparr>version = ''0.6.12'',
                     settings = \<lparr>optimizer = \<lparr>enabled = True, runs = 199\<rparr>\<rparr>\<rparr>\<rparr>,
          migrations_directory = ''migrations'',
          contracts_directory = ''contracts'',
          contracts_build_directory = ''build/contracts''\<rparr>
   \<and> getTruffleConfig nets VUndefined = getTruffleConfig nets (VStr ''./'')"
  by (simp add: getTruffleConfig_def path_join_dot_slash)

text \<open>
  C6 as stated asks for \<^verbatim>\<open>./migrations\<close>, \<^verbatim>\<open>./contracts\<close> and \<^verbatim>\<open>./build/contracts\<close>. The
  call returns a configuration, and none of its three directories is the claimed string.
\<close>

theorem getTruffleConfig_dot_slash_counterexample:
  "\<not> isl (getTruffleConfig [] (VStr ''./''))
   \<and> migrations_directory (projr (getTruffleConfig [] (VStr ''./''))) \<noteq> ''./migrations''
   \<and> contracts_directory (projr (getTruffleConfig [] (VStr ''./''))) \<noteq> ''./contracts''
   \<and> contracts_build_directory (projr (getTruffleConfig [] (VStr ''./''))) \<noteq> ''./build/contracts''"
  by (simp add: getTruffleConfig_def path_join_dot_slash)

text \<open>
  C7. Whatever the registry (and so whatever the environment it was built from) and
  whatever the argument, a configuration that \<open>getTruffleConfig\<close> returns has the compiler
  settings \<^verbatim>\<open>solc 0.6.12\<close>, optimizer enabled, 199 runs; and it does return one for every
  string argument and for an omitted argument.
\<close>

theorem getTruffleConfig_compilers_constant:
  "(getTruffleConfig nets arg = Inr cfg \<longrightarrow>
      compilers cfg =
        \<lparr>solc = \<lparr>version = ''0.6.12'',
                 settings = \<lparr>optimizer = \<lparr>enabled = True, runs = 199\<rparr>\<rparr>\<rparr>\<rparr>)
   \<and> (arg = VUndefined \<or> arg = VStr s \<longrightarrow> (\<exists>c. getTruffleConfig nets arg = Inr c))"
proof -
  have returned: "compilers cfg =
        \<lparr>solc = \<lparr>version = ''0.6.12'',
                 settings = \<lparr>optimizer = \<lparr>enabled = True, runs = 199\<rparr>\<rparr>\<rparr>\<rparr>"
    if "getTruffleConfig nets arg = Inr cfg"
    using that unfolding getTruffleConfig_def Let_def
    by (auto split: sum.splits)
  have total: "\<exists>c. getTruffleConfig nets (VStr t) = Inr c" for t
  proof -
    obtain m where m: "path_join [VStr t, VStr ''migrations''] = Inr m"
      using path_join_strings by blast
    obtain c where c: "path_join [VStr t, VStr ''contracts''] = Inr c"
      using path_join_strings by blast
    obtain b where b: "path_join [VStr t, VStr ''build/contracts''] = Inr b"
      using path_join_strings by blast
    show ?thesis by (simp add: getTruffleConfig_def m c b)
  qed
  have "\<exists>c. getTruffleConfig nets VUndefined = Inr c"
    using total [of "''./''"] by (simp add: getTruffleConfig_def)
  with returned total show ?thesis by blast
qed

theorem getTruffleConfig_compilers_constant_witness:
  "compilers (projr (getTruffleConfig [(''develop'', VObj [])] (VStr ''/srv/core''))) =
     \<lparr>solc = \<lparr>version = ''0.6.12'',
              settings = \<lparr>optimizer = \<lparr>enabled = True, runs = 199\<rparr>\<rparr>\<rparr>\<rparr>
   \<and> \<not> isl (getTruffleConfig [(''develop'', VObj [])] (VStr ''/srv/core''))"
proof -
  obtain c where c: "getTruffleConfig [(''develop'', VObj [])] (VStr ''/srv/core'') = Inr c"
    using getTruffleConfig_compilers_constant
            [of "[(''develop'', VObj [])]" "VStr ''/srv/core''" undefined "''/srv/core''"]
    by blast
  show ?thesis
    using getTruffleConfig_compilers_constant
            [of "[(''develop'', VObj [])]" "VStr ''/srv/core''" c "''/srv/core''"] c
    by simp
qed

section \<open>The key window\<close>

lemma decimal_digit_facts:
  assumes "decimal_digit c"
  shows "\<not> isStrWhiteSpaceChar c" and "c \<noteq> CHR ''-''" and "c \<noteq> CHR ''+''"
    and "c \<noteq> CHR ''x''" and "c \<noteq> CHR ''X''" and "isRadixDigit 10 c"
    and "digitValue c = Some (of_char c - 48)"
  using assms
  by (auto simp: decimal_digit_def isStrWhiteSpaceChar_def isRadixDigit_def digitValue_def Let_def)

lemma takeWhile_decimal: "list_all decimal_digit s \<Longrightarrow> takeWhile (isRadixDigit 10) s = s"
  by (induction s) (simp_all add: decimal_digit_facts)

lemma parseInt_decimal:
  assumes "s \<noteq> []" and "list_all decimal_digit s"
  shows "parseInt s = VNum (mathInt 10 0 s)"
proof -
  obtain c cs where s: "s = c # cs" using assms(1) by (cases s) auto
  have c: "decimal_digit c" using assms(2) s by simp
  have S: "dropWhile isStrWhiteSpaceChar s = s"
    using c by (simp add: s decimal_digit_facts)
  have sign: "take 1 s \<noteq> ''-''" "take 1 s \<noteq> ''+''"
    using c by (simp_all add: s decimal_digit_facts)
  have prefix: "take 2 s \<noteq> ''0x''" "take 2 s \<noteq> ''0X''"
  proof -
    show "take 2 s \<noteq> ''0x''"
    proof (cases cs)
      case Nil
      then show ?thesis by (simp add: s)
    next
      case (Cons c' cs')
      with assms(2) s have "decimal_digit c'" by simp
      then have "c' \<noteq> CHR ''x''" by (rule decimal_digit_facts)
      then show ?thesis by (simp add: s Cons)
    qed
    show "take 2 s \<noteq> ''0X''"
    proof (cases cs)
      case Nil
      then show ?thesis by (simp add: s)
    next
      case (Cons c' cs')
      with assms(2) s have "decimal_digit c'" by simp
      then have "c' \<noteq> CHR ''X''" by (rule decimal_digit_facts)
      then show ?thesis by (simp add: s Cons)
    qed
  qed
  have Z: "takeWhile (isRadixDigit 10) s = s"
    using assms(2) by (rule takeWhile_decimal)
  show ?thesis
    unfolding parseInt_def Let_def S
    using sign prefix assms(1) by (simp add: Z)
qed

lemma mathInt_nonneg: "0 \<le> acc \<Longrightarrow> 0 \<le> mathInt R acc s"
  by (induction s arbitrary: acc) simp_all

lemma mathInt_pos: "1 \<le> acc \<Longrightarrow> 1 \<le> mathInt 10 acc s"
proof (induction s arbitrary: acc)
  case Nil
  then show ?case by simp
next
  case (Cons c cs)
  have "1 \<le> acc * 10 + int (case digitValue c of Some d \<Rightarrow> d | None \<Rightarrow> 0)"
    using Cons.prems by simp
  then show ?case using Cons.IH by simp
qed

lemma decimal_digit_nonzero:
  assumes "decimal_digit c" and "c \<noteq> CHR ''0''"
  shows "1 \<le> (of_char c :: nat) - 48"
proof -
  have "(of_char c :: nat) \<noteq> of_char CHR ''0''"
    using assms(2) by (simp only: of_char_eq_iff not_False_eq_True)
  then have "(of_char c :: nat) \<noteq> 48" by simp
  with assms(1) show ?thesis unfolding decimal_digit_def by arith
qed

lemma mathInt_pos_decimal:
  "0 \<le> acc \<Longrightarrow> list_all decimal_digit s \<Longrightarrow> list_ex (\<lambda>c. c \<noteq> CHR ''0'') s \<Longrightarrow>
   1 \<le> mathInt 10 acc s"
proof (induction s arbitrary: acc)
  case Nil
  then show ?case by simp
next
  case (Cons c cs)
  have c: "decimal_digit c" and cs: "list_all decimal_digit cs"
    using Cons.prems(2) by simp_all
  have dv: "digitValue c = Some (of_char c - 48)"
    using c by (rule decimal_digit_facts)
  show ?case
  proof (cases "c = CHR ''0''")
    case True
    with Cons.prems(3) have ex: "list_ex (\<lambda>c. c \<noteq> CHR ''0'') cs" by simp
    have "0 \<le> acc * 10 + int (of_char c - 48)" using Cons.prems(1) by simp
    from Cons.IH [OF this cs ex] show ?thesis by (simp add: dv)
  next
    case False
    with c have "1 \<le> (of_char c :: nat) - 48" by (rule decimal_digit_nonzero)
    then have "1 \<le> acc * 10 + int (of_char c - 48)" using Cons.prems(1) by simp
    from mathInt_pos [OF this] show ?thesis by (simp add: dv)
  qed
qed

text \<open>
  C9, as the code has it. \<^verbatim>\<open>KEY_OFFSET\<close> and \<^verbatim>\<open>NUM_KEYS\<close> are not validated. When
  \<^verbatim>\<open>KEY_OFFSET\<close> is unset, empty or a decimal numeral, \<open>keyOffset\<close> is an integer at least
  0; when \<^verbatim>\<open>NUM_KEYS\<close> is unset, empty or a decimal numeral with a digit other than
  \<^verbatim>\<open>0\<close>, \<open>numKeys\<close> is an integer at least 1. Unset or empty variables give 0 and 2.
\<close>

theorem key_window_for_unset_or_decimal:
  assumes "case e ''KEY_OFFSET'' of None \<Rightarrow> True | Some s \<Rightarrow> decimal_numeral s"
    and "case e ''NUM_KEYS'' of
           None \<Rightarrow> True
         | Some s \<Rightarrow> decimal_numeral s \<and> (s = [] \<or> list_ex (\<lambda>c. c \<noteq> CHR ''0'') s)"
  shows "is_integer_at_least 0 (keyOffset e) \<and> is_integer_at_least 1 (numKeys e)
    \<and> (e ''KEY_OFFSET'' = None \<or> e ''KEY_OFFSET'' = Some [] \<longrightarrow> keyOffset e = VNum 0)
    \<and> (e ''NUM_KEYS'' = None \<or> e ''NUM_KEYS'' = Some [] \<longrightarrow> numKeys e = VNum 2)"
proof -
  have off: "is_integer_at_least 0 (keyOffset e)"
  proof (cases "e ''KEY_OFFSET''")
    case None
    then show ?thesis by (simp add: keyOffset_def is_integer_at_least_def)
  next
    case (Some s)
    show ?thesis
    proof (cases "s = []")
      case True
      with Some show ?thesis by (simp add: keyOffset_def is_integer_at_least_def)
    next
      case False
      from assms(1) Some have "list_all decimal_digit s" by (simp add: decimal_numeral_def)
      with False have "parseInt s = VNum (mathInt 10 0 s)" by (rule parseInt_decimal)
      moreover have "0 \<le> mathInt 10 0 s" by (rule mathInt_nonneg) simp
      ultimately show ?thesis
        using Some False by (simp add: keyOffset_def is_integer_at_least_def)
    qed
  qed
  have num: "is_integer_at_least 1 (numKeys e)"
  proof (cases "e ''NUM_KEYS''")
    case None
    then show ?thesis by (simp add: numKeys_def is_integer_at_least_def)
  next
    case (Some s)
    show ?thesis
    proof (cases "s = []")
      case True
      with Some show ?thesis by (simp add: numKeys_def is_integer_at_least_def)
    next
      case False
      from assms(2) Some False have d: "list_all decimal_digit s"
        and ex: "list_ex (\<lambda>c. c \<noteq> CHR ''0'') s"
        by (simp_all add: decimal_numeral_def)
      from False d have "parseInt s = VNum (mathInt 10 0 s)" by (rule parseInt_decimal)
      moreover have "1 \<le> mathInt 10 0 s" using d ex by (intro mathInt_pos_decimal) simp_all
      ultimately show ?thesis
        using Some False by (simp add: numKeys_def is_integer_at_least_def)
    qed
  qed
  have defaults:
    "e ''KEY_OFFSET'' = None \<or> e ''KEY_OFFSET'' = Some [] \<longrightarrow> keyOffset e = VNum 0"
    "e ''NUM_KEYS'' = None \<or> e ''NUM_KEYS'' = Some [] \<longrightarrow> numKeys e = VNum 2"
    by (auto simp: keyOffset_def numKeys_def)
  from off num defaults show ?thesis by blast
qed

theorem key_window_for_unset_or_decimal_witness:
  "is_integer_at_least 0 (keyOffset [''KEY_OFFSET'' \<mapsto> ''3'', ''NUM_KEYS'' \<mapsto> ''010''])
   \<and> is_integer_at_least 1 (numKeys [''KEY_OFFSET'' \<mapsto> ''3'', ''NUM_KEYS'' \<mapsto> ''010''])
   \<and> keyOffset [''KEY_OFFSET'' \<mapsto> ''3'', ''NUM_KEYS'' \<mapsto> ''010''] = VNum 3
   \<and> numKeys [''KEY_OFFSET'' \<mapsto> ''3'', ''NUM_KEYS'' \<mapsto> ''010''] = VNum 10
   \<and> is_integer_at_least 0 (keyOffset Map.empty) \<and> keyOffset Map.empty = VNum 0
   \<and> is_integer_at_least 1 (numKeys Map.empty) \<and> numKeys Map.empty = VNum 2"
proof -
  let ?e = "[''KEY_OFFSET'' \<mapsto> ''3'', ''NUM_KEYS'' \<mapsto> ''010'']"
  have h1: "case ?e ''KEY_OFFSET'' of None \<Rightarrow> True | Some s \<Rightarrow> decimal_numeral s"
    by (simp add: decimal_numeral_def decimal_digit_def)
  have h2: "case ?e ''NUM_KEYS'' of
              None \<Rightarrow> True
            | Some s \<Rightarrow> decimal_numeral s \<and> (s = [] \<or> list_ex (\<lambda>c. c \<noteq> CHR ''0'') s)"
    by (simp add: decimal_numeral_def decimal_digit_def)
  have vals: "keyOffset ?e = VNum 3" "numKeys ?e = VNum 10"
    by (simp_all add: keyOffset_def numKeys_def parseInt_def isStrWhiteSpaceChar_def
          isRadixDigit_def digitValue_def Let_def)
  have g1: "case (Map.empty :: environment) ''KEY_OFFSET'' of
              None \<Rightarrow> True | Some s \<Rightarrow> decimal_numeral s"
    by simp
  have g2: "case (Map.empty :: environment) ''NUM_KEYS'' of
              None \<Rightarrow> True
            | Some s \<Rightarrow> decimal_numeral s \<and> (s = [] \<or> list_ex (\<lambda>c. c \<noteq> CHR ''0'') s)"
    by simp
  have set_case: "is_integer_at_least 0 (keyOffset ?e)" "is_integer_at_least 1 (numKeys ?e)"
    using key_window_for_unset_or_decimal [OF h1 h2] by blast+
  have absent: "(Map.empty :: environment) ''KEY_OFFSET'' = None"
    "(Map.empty :: environment) ''NUM_KEYS'' = None"
    by simp_all
  have unset_case:
    "is_integer_at_least 0 (keyOffset Map.empty)" "is_integer_at_least 1 (numKeys Map.empty)"
    "keyOffset Map.empty = VNum 0" "numKeys Map.empty = VNum 2"
    using key_window_for_unset_or_decimal [OF g1 g2] absent by blast+
  from set_case unset_case vals show ?thesis by (intro conjI)
qed

text \<open>
  C9 as stated holds for no more than that: with \<^verbatim>\<open>KEY_OFFSET=-1\<close> and \<^verbatim>\<open>NUM_KEYS=0\<close> the
  offset is the integer \<open>-1\<close> and the count the integer 0.
\<close>

theorem key_window_counterexample:
  "\<not> is_integer_at_least 0 (keyOffset [''KEY_OFFSET'' \<mapsto> ''-1'', ''NUM_KEYS'' \<mapsto> ''0''])
   \<and> \<not> is_integer_at_least 1 (numKeys [''KEY_OFFSET'' \<mapsto> ''-1'', ''NUM_KEYS'' \<mapsto> ''0''])
   \<and> keyOffset [''KEY_OFFSET'' \<mapsto> ''-1'', ''NUM_KEYS'' \<mapsto> ''0''] = VNum (- 1)
   \<and> numKeys [''KEY_OFFSET'' \<mapsto> ''-1'', ''NUM_KEYS'' \<mapsto> ''0''] = VNum 0"
  by (simp add: keyOffset_def numKeys_def parseInt_def isStrWhiteSpaceChar_def
        isRadixDigit_def digitValue_def is_integer_at_least_def Let_def)

section \<open>The shared singleton\<close>

lemma construct_once_filled:
  "singletonProvider p = Some r \<Longrightarrow> construct_once returns C args p = (Inr r, p)"
  by (simp add: construct_once_def)

lemma construct_once_returned:
  assumes "construct_once returns C args p = (Inr r, p')"
  shows "singletonProvider p' = Some r"
    and "singletonProvider p = None \<Longrightarrow>
         r = length (objects p) \<and> returns C args \<and> objects p' = objects p @ [(C, args)]"
    and "singletonProvider p \<noteq> None \<Longrightarrow> p' = p"
  using assms
  by (auto simp: construct_once_def split: option.splits if_splits)

lemma construct_once_total:
  "returns C args \<or> singletonProvider p \<noteq> None \<Longrightarrow>
   \<exists>r p'. construct_once returns C args p = (Inr r, p')"
  by (auto simp: construct_once_def split: option.splits)

lemma call_provider_body:
  "\<exists>C args. call_provider returns h url f networkId arg p = construct_once returns C args p"
  by (cases f) (simp_all only: call_provider.simps Let_def, blast+)

lemma call_provider_filled:
  assumes "singletonProvider p = Some r"
  shows "call_provider returns h url f networkId arg p = (Inr r, p)"
proof -
  obtain C args
    where "call_provider returns h url f networkId arg p = construct_once returns C args p"
    using call_provider_body by blast
  with assms show ?thesis by (simp add: construct_once_filled)
qed

text \<open>
  C1. Take any of the six factories (the five of a public network and the metamask one)
  and call it in any state of the process. If the call returns a provider \<open>r\<close>, the slot
  holds \<open>r\<close> afterwards, and any factory called next, of whatever network and mechanism
  and with whatever argument, returns the same reference \<open>r\<close> and leaves the state as it
  is, so every later call does too. If the slot was empty, the first call constructed
  \<open>r\<close> as a new object; if it was filled, nothing was constructed. The call does return
  when the slot is filled or the external constructor does not throw.
\<close>

theorem provider_factories_share_singleton:
  "(call_provider returns h url f networkId arg p = (Inr r, p') \<longrightarrow>
      singletonProvider p' = Some r
      \<and> call_provider returns' h url g networkId' arg' p' = (Inr r, p')
      \<and> (singletonProvider p = None \<longrightarrow>
           r = length (objects p) \<and> length (objects p') = Suc (length (objects p)))
      \<and> (singletonProvider p \<noteq> None \<longrightarrow> p' = p))
   \<and> ((\<forall>C args. returns C args) \<or> singletonProvider p \<noteq> None \<longrightarrow>
        (\<exists>r0 p0. call_provider returns h url f networkId arg p = (Inr r0, p0)))"
proof -
  obtain C args
    where body: "call_provider returns h url f networkId arg p = construct_once returns C args p"
    using call_provider_body by blast
  have first: "singletonProvider p' = Some r
      \<and> call_provider returns' h url g networkId' arg' p' = (Inr r, p')
      \<and> (singletonProvider p = None \<longrightarrow>
           r = length (objects p) \<and> length (objects p') = Suc (length (objects p)))
      \<and> (singletonProvider p \<noteq> None \<longrightarrow> p' = p)"
    if ret: "call_provider returns h url f networkId arg p = (Inr r, p')"
  proof -
    from ret body have c: "construct_once returns C args p = (Inr r, p')" by simp
    have slot: "singletonProvider p' = Some r"
      using c by (rule construct_once_returned)
    have later: "call_provider returns' h url g networkId' arg' p' = (Inr r, p')"
      using slot by (rule call_provider_filled)
    have fresh: "r = length (objects p) \<and> length (objects p') = Suc (length (objects p))"
      if "singletonProvider p = None"
      using construct_once_returned(2) [OF c that] by simp
    have kept: "p' = p" if "singletonProvider p \<noteq> None"
      using construct_once_returned(3) [OF c that] .
    from slot later fresh kept show ?thesis by blast
  qed
  have total: "\<exists>r0 p0. call_provider returns h url f networkId arg p = (Inr r0, p0)"
    if "(\<forall>C args. returns C args) \<or> singletonProvider p \<noteq> None"
  proof -
    from that have "returns C args \<or> singletonProvider p \<noteq> None" by blast
    then show ?thesis unfolding body by (rule construct_once_total)
  qed
  from first total show ?thesis by blast
qed

theorem provider_factories_share_singleton_witness:
  "call_provider (\<lambda>C args. True)
     \<lparr>env = [''CUSTOM_NODE_URL'' \<mapsto> ''ws://127.0.0.1:8546''], global_name = None,
      PublicNetworks = [(''1'', ''mainnet''), (''42'', ''kovan'')], GckmsConfig = []\<rparr>
     ''ws://127.0.0.1:8546'' mnemonic_provider (VStr ''1'') VUndefined
     \<lparr>singletonProvider = None, objects = []\<rparr> =
     (Inr 0,
      \<lparr>singletonProvider = Some 0,
       objects =
         [(''HDWalletProvider'',
           [VStr ''candy maple cake sugar pudding cream honey rich smooth crumble sweet treat'',
            VStr ''ws://127.0.0.1:8546'', VNum 0, VNum 2])]\<rparr>)
   \<and> call_provider (\<lambda>C args. False)
     \<lparr>env = [''CUSTOM_NODE_URL'' \<mapsto> ''ws://127.0.0.1:8546''], global_name = None,
      PublicNetworks = [(''1'', ''mainnet''), (''42'', ''kovan'')], GckmsConfig = []\<rparr>
     ''ws://127.0.0.1:8546'' ledger_provider (VStr ''42'') (VStr ''http://other'')
     \<lparr>singletonProvider = Some 0,
      objects =
        [(''HDWalletProvider'',
          [VStr ''candy maple cake sugar pudding cream honey rich smooth crumble sweet treat'',
           VStr ''ws://127.0.0.1:8546'', VNum 0, VNum 2])]\<rparr> =
     (Inr 0,
      \<lparr>singletonProvider = Some 0,
       objects =
         [(''HDWalletProvider'',
           [VStr ''candy maple cake sugar pudding cream honey rich smooth crumble sweet treat'',
            VStr ''ws://127.0.0.1:8546'', VNum 0, VNum 2])]\<rparr>)"
proof -
  let ?h = "\<lparr>env = [''CUSTOM_NODE_URL'' \<mapsto> ''ws://127.0.0.1:8546''], global_name = None,
             PublicNetworks = [(''1'', ''mainnet''), (''42'', ''kovan'')], GckmsConfig = []\<rparr>"
  let ?p = "\<lparr>singletonProvider = None, objects = []\<rparr>"
  let ?p' = "\<lparr>singletonProvider = Some 0,
              objects =
                [(''HDWalletProvider'',
                  [VStr ''candy maple cake sugar pudding cream honey rich smooth crumble sweet treat'',
                   VStr ''ws://127.0.0.1:8546'', VNum 0, VNum 2])]\<rparr>"
  have first: "call_provider (\<lambda>C args. True) ?h ''ws://127.0.0.1:8546'' mnemonic_provider
                 (VStr ''1'') VUndefined ?p = (Inr 0, ?p')"
    by (simp add: construct_once_def mnemonic_def keyOffset_def numKeys_def)
  have "call_provider (\<lambda>C args. False) ?h ''ws://127.0.0.1:8546'' ledger_provider
          (VStr ''42'') (VStr ''http://other'') ?p' = (Inr 0, ?p')"
    using provider_factories_share_singleton
            [of "\<lambda>C args. True" ?h "''ws://127.0.0.1:8546''" mnemonic_provider "VStr ''1''"
                VUndefined ?p 0 ?p' "\<lambda>C args. False" ledger_provider "VStr ''42''"
                "VStr ''http://other''"]
          first
    by blast
  with first show ?thesis by (rule conjI)
qed

end
